theory Spec2Isabelle
  imports Main
begin

section \<open>Startup: reading the port\<close>

text \<open>
  The program is one module, \<^verbatim>\<open>app.py\<close>. Its last three lines run when the module is the
  entry point:
  \<^verbatim>\<open>
  if __name__ == "__main__":
      port = int(os.environ.get("PORT", 8000))
      uvicorn.run("app:app", host="0.0.0.0", port=port)
  \<close>
  \<^verbatim>\<open>os.environ.get\<close> returns the string stored under the key, or the default, here the
  integer 8000; so the argument of \<^verbatim>\<open>int\<close> is a string or an integer. \<^verbatim>\<open>int\<close> raises
  \<^verbatim>\<open>ValueError\<close> on a string it cannot read, and nothing catches it.
\<close>

datatype pyval = PyStr string | PyInt int

datatype error = ValueError

text \<open>
  \<^verbatim>\<open>int(s)\<close> on a string, base 10, works in two steps. The second is the scanner of ASCII
  text: white space is skipped, one sign is read, the text that follows must not start
  with an underscore, then digits and underscores are scanned (no two underscores in a
  row, none at the end), the number of digits is checked against the interpreter's limit,
  at least one digit is required, and only white space may follow.
\<close>

definition is_space :: "char \<Rightarrow> bool" where
  "is_space c = (c \<in> set [CHR 0x09, CHR 0x0A, CHR 0x0B, CHR 0x0C, CHR 0x0D, CHR '' ''])"

definition is_digit :: "char \<Rightarrow> bool" where
  "is_digit c = (c \<in> set ''0123456789'')"

definition digit_value :: "char \<Rightarrow> int" where
  "digit_value c = int (of_char c) - 48"

fun split_sign :: "string \<Rightarrow> bool \<times> string" where
  "split_sign [] = (False, [])"
| "split_sign (c # cs) =
     (if c = CHR ''+'' then (False, cs)
      else if c = CHR ''-'' then (True, cs)
      else (False, c # cs))"

text \<open>
  The scanning loop: \<open>prev_us\<close> says that the character before was an underscore,
  \<open>ds\<close> collects the digits. The result is the digits and the text left, or \<open>None\<close>
  where the loop reports a misplaced underscore.
\<close>

fun scan_digits :: "bool \<Rightarrow> string \<Rightarrow> string \<Rightarrow> (string \<times> string) option" where
  "scan_digits prev_us ds [] = (if prev_us then None else Some (ds, []))"
| "scan_digits prev_us ds (c # cs) =
     (if c = CHR ''_'' then (if prev_us then None else scan_digits True ds cs)
      else if is_digit c then scan_digits False (ds @ [c]) cs
      else if prev_us then None
      else Some (ds, c # cs))"

definition decimal :: "string \<Rightarrow> int" where
  "decimal ds = foldl (\<lambda>v c. 10 * v + digit_value c) 0 ds"

text \<open>
  The interpreter's limit on the digits of an integer string: \<open>max_str_digits\<close> is
  \<^verbatim>\<open>sys.get_int_max_str_digits()\<close>, 4300 unless the interpreter is started otherwise, and 0
  where the limit is switched off (or the interpreter has none). Strings of at most 640
  digits are never checked. The program does not set the limit, so it is a parameter of
  the model.
\<close>

definition exceeds_limit :: "nat \<Rightarrow> nat \<Rightarrow> bool" where
  "exceeds_limit max_str_digits n = (0 < max_str_digits \<and> 640 < n \<and> max_str_digits < n)"

definition int_from_string :: "nat \<Rightarrow> string \<Rightarrow> error + int" where
  "int_from_string max_str_digits s =
     (case split_sign (dropWhile is_space s) of (negative, s') \<Rightarrow>
        (case s' of
           [] \<Rightarrow> Inl ValueError
         | c # _ \<Rightarrow>
             if c = CHR ''_'' then Inl ValueError
             else (case scan_digits False [] s' of
                     None \<Rightarrow> Inl ValueError
                   | Some (ds, rest) \<Rightarrow>
                       if exceeds_limit max_str_digits (length ds) then Inl ValueError
                       else if ds = [] then Inl ValueError
                       else if dropWhile is_space rest \<noteq> [] then Inl ValueError
                       else Inr (if negative then - decimal ds else decimal ds))))"

text \<open>
  The first step makes the text ASCII. A string is a list of bytes here, as the process
  receives its environment; Python decodes it as UTF-8, and \<^verbatim>\<open>int\<close> reads characters, not
  bytes. A text that is all ASCII is scanned as it is. In any other text, a character
  below 127 is kept, a Unicode white space becomes a space, a Unicode decimal digit becomes
  the ASCII digit of its value, and at the first character that is none of these (also a
  byte that is not valid UTF-8) the text is cut and ends in a question mark, on which the
  scanner fails.

  \<open>decode_char\<close> reads the character that starts with a byte outside ASCII: its code
  point and the number of bytes that follow the first one. Overlong forms, surrogates and
  code points above 0x10FFFF are not valid.
\<close>

definition is_ascii :: "char \<Rightarrow> bool" where
  "is_ascii c = ((of_char c :: nat) < 128)"

definition continuation :: "char \<Rightarrow> bool" where
  "continuation c = (128 \<le> (of_char c :: nat) \<and> (of_char c :: nat) < 192)"

definition low_bits :: "char \<Rightarrow> nat" where
  "low_bits c = of_char c - 128"

fun decode_char :: "string \<Rightarrow> (nat \<times> nat) option" where
  "decode_char [] = None"
| "decode_char (b # bs) =
     (if 194 \<le> (of_char b :: nat) \<and> (of_char b :: nat) < 224 then
        (case bs of
           b1 # _ \<Rightarrow>
             if continuation b1 then Some ((of_char b - 192) * 64 + low_bits b1, 1) else None
         | _ \<Rightarrow> None)
      else if 224 \<le> (of_char b :: nat) \<and> (of_char b :: nat) < 240 then
        (case bs of
           b1 # b2 # _ \<Rightarrow>
             if continuation b1 \<and> continuation b2 then
               (let cp = (of_char b - 224) * 4096 + low_bits b1 * 64 + low_bits b2
                in if 2048 \<le> cp \<and> (cp < 55296 \<or> 57344 \<le> cp) then Some (cp, 2) else None)
             else None
         | _ \<Rightarrow> None)
      else if 240 \<le> (of_char b :: nat) \<and> (of_char b :: nat) < 245 then
        (case bs of
           b1 # b2 # b3 # _ \<Rightarrow>
             if continuation b1 \<and> continuation b2 \<and> continuation b3 then
               (let cp = (of_char b - 240) * 262144 + low_bits b1 * 4096 +
                         low_bits b2 * 64 + low_bits b3
                in if 65536 \<le> cp \<and> cp < 1114112 then Some (cp, 3) else None)
             else None
         | _ \<Rightarrow> None)
      else None)"

text \<open>
  The white space and the decimal digits outside ASCII, from the Unicode database of the
  interpreter (Unicode 14.0, which CPython 3.11 carries; later versions add digits of
  further scripts). The decimal digits come in runs of ten, from zero to nine, and each
  run is listed by the code point of its zero.
\<close>

definition unicode_spaces :: "nat list" where
  "unicode_spaces =
     [0x85, 0xA0, 0x1680, 0x2000, 0x2001, 0x2002, 0x2003, 0x2004, 0x2005, 0x2006, 0x2007,
      0x2008, 0x2009, 0x200A, 0x2028, 0x2029, 0x202F, 0x205F, 0x3000]"

definition unicode_zeros :: "nat list" where
  "unicode_zeros =
     [0x0660, 0x06F0, 0x07C0, 0x0966, 0x09E6, 0x0A66, 0x0AE6, 0x0B66,
      0x0BE6, 0x0C66, 0x0CE6, 0x0D66, 0x0DE6, 0x0E50, 0x0ED0, 0x0F20,
      0x1040, 0x1090, 0x17E0, 0x1810, 0x1946, 0x19D0, 0x1A80, 0x1A90,
      0x1B50, 0x1BB0, 0x1C40, 0x1C50, 0xA620, 0xA8D0, 0xA900, 0xA9D0,
      0xA9F0, 0xAA50, 0xABF0, 0xFF10, 0x104A0, 0x10D30, 0x11066, 0x110F0,
      0x11136, 0x111D0, 0x112F0, 0x11450, 0x114D0, 0x11650, 0x116C0, 0x11730,
      0x118E0, 0x11950, 0x11C50, 0x11D50, 0x11DA0, 0x16A60, 0x16AC0, 0x16B50,
      0x1D7CE, 0x1D7D8, 0x1D7E2, 0x1D7EC, 0x1D7F6, 0x1E140, 0x1E2F0, 0x1E950,
      0x1FBF0]"

definition unicode_decimal :: "nat \<Rightarrow> nat option" where
  "unicode_decimal cp =
     map_option (\<lambda>z. cp - z) (find (\<lambda>z. z \<le> cp \<and> cp < z + 10) unicode_zeros)"

definition ascii_digit :: "nat \<Rightarrow> char" where
  "ascii_digit d = ''0123456789'' ! (d mod 10)"

fun rewrite :: "string \<Rightarrow> string" where
  "rewrite [] = []"
| "rewrite (c # cs) =
     (if (of_char c :: nat) < 127 then c # rewrite cs
      else (case decode_char (c # cs) of
              None \<Rightarrow> ''?''
            | Some (cp, k) \<Rightarrow>
                if cp \<in> set unicode_spaces then CHR '' '' # rewrite (drop k cs)
                else (case unicode_decimal cp of
                        None \<Rightarrow> ''?''
                      | Some d \<Rightarrow> ascii_digit d # rewrite (drop k cs))))"

definition decimal_and_space_to_ascii :: "string \<Rightarrow> string" where
  "decimal_and_space_to_ascii s = (if list_all is_ascii s then s else rewrite s)"

fun py_int :: "nat \<Rightarrow> pyval \<Rightarrow> error + int" where
  "py_int max_str_digits (PyInt i) = Inr i"
| "py_int max_str_digits (PyStr s) =
     int_from_string max_str_digits (decimal_and_space_to_ascii s)"

definition environ_get :: "(string \<rightharpoonup> string) \<Rightarrow> string \<Rightarrow> pyval \<Rightarrow> pyval" where
  "environ_get environ key dflt = (case environ key of None \<Rightarrow> dflt | Some v \<Rightarrow> PyStr v)"

text \<open>
  The call that starts the server, with its three arguments: the application's import
  string, the host and the port. Startup either raises or reaches this call; what the
  server and the operating system do with the port afterwards is not part of the program.
\<close>

datatype server = Uvicorn_run string string int

definition port :: "nat \<Rightarrow> (string \<rightharpoonup> string) \<Rightarrow> error + int" where
  "port max_str_digits environ = py_int max_str_digits (environ_get environ ''PORT'' (PyInt 8000))"

definition main :: "nat \<Rightarrow> (string \<rightharpoonup> string) \<Rightarrow> error + server" where
  "main max_str_digits environ =
     (case port max_str_digits environ of
        Inl e \<Rightarrow> Inl e
      | Inr p \<Rightarrow> Inr (Uvicorn_run ''app:app'' ''0.0.0.0'' p))"

section \<open>The application and its two handlers\<close>

text \<open>
  The rest of the module builds the application object and registers two handlers:
  \<^verbatim>\<open>
  app = FastAPI()

  @app.get("/")
  def root():
      return {"message": "Hello from FastAPI on AKS!"}

  @app.get("/healthz")
  def healthz():
      return {"status": "ok"}
  \<close>
  Both handlers return a dict display, which Python evaluates to a new dict object on
  every call. The program state is therefore modelled with a heap of dict objects next to
  the one module-level object the program creates, \<^verbatim>\<open>app\<close>: its route table and the OpenAPI
  schema it caches. An object's address is its index in the heap.
\<close>

type_synonym pydict = "(string \<times> string) list"

datatype endpoint =
  Openapi | Swagger_ui_html | Swagger_ui_redirect | Redoc_html | Root | Healthz

record route =
  route_path :: string
  methods :: "string list"
  endpoint :: endpoint

record pstate =
  routes :: "route list"
  openapi_schema :: bool
  heap :: "pydict list"

definition new_dict :: "pydict \<Rightarrow> pstate \<Rightarrow> nat \<times> pstate" where
  "new_dict d s = (length (heap s), s\<lparr>heap := heap s @ [d]\<rparr>)"

definition root :: "pstate \<Rightarrow> nat \<times> pstate" where
  "root s = new_dict [(''message'', ''Hello from FastAPI on AKS!'')] s"

definition healthz :: "pstate \<Rightarrow> nat \<times> pstate" where
  "healthz s = new_dict [(''status'', ''ok'')] s"

text \<open>
  \<^verbatim>\<open>FastAPI()\<close>, called with no argument, keeps the framework's defaults
  (\<^verbatim>\<open>openapi_url="/openapi.json"\<close>, \<^verbatim>\<open>docs_url="/docs"\<close>,
  \<^verbatim>\<open>swagger_ui_oauth2_redirect_url="/docs/oauth2-redirect"\<close>, \<^verbatim>\<open>redoc_url="/redoc"\<close>) and
  registers a route for each of them before the module registers its own. These are plain
  routes of the underlying toolkit, which answer GET and HEAD; no schema is cached yet.
\<close>

definition FastAPI :: pstate where
  "FastAPI =
     \<lparr>routes =
        [\<lparr>route_path = ''/openapi.json'', methods = [''GET'', ''HEAD''], endpoint = Openapi\<rparr>,
         \<lparr>route_path = ''/docs'', methods = [''GET'', ''HEAD''], endpoint = Swagger_ui_html\<rparr>,
         \<lparr>route_path = ''/docs/oauth2-redirect'', methods = [''GET'', ''HEAD''],
            endpoint = Swagger_ui_redirect\<rparr>,
         \<lparr>route_path = ''/redoc'', methods = [''GET'', ''HEAD''], endpoint = Redoc_html\<rparr>],
      openapi_schema = False,
      heap = []\<rparr>"

text \<open>
  The decorator \<^verbatim>\<open>@app.get(p)\<close> appends a route for the method GET alone (no status code
  is given, so the response class's default, 200, applies).
\<close>

definition app_get :: "string \<Rightarrow> endpoint \<Rightarrow> pstate \<Rightarrow> pstate" where
  "app_get p f s =
     s\<lparr>routes := routes s @ [\<lparr>route_path = p, methods = [''GET''], endpoint = f\<rparr>]\<rparr>"

definition app :: pstate where
  "app = app_get ''/healthz'' Healthz (app_get ''/'' Root FastAPI)"

section \<open>Requests and responses\<close>

text \<open>
  A request as the router receives it. Only \<open>http_method\<close> and \<open>path\<close> are ever looked at;
  the other fields stand for everything else a client sends.
\<close>

record request =
  http_method :: string
  path :: string
  query_string :: string
  headers :: "(string \<times> string) list"
  request_body :: string

text \<open>
  A response is its status code and its body. The body is the bytes sent, except for the
  pages and the schema the framework writes for its own routes, whose text is left
  abstract. Response headers are not modelled.
\<close>

datatype body = Bytes string | Document endpoint

record response =
  status_code :: nat
  body :: body

text \<open>
  The JSON response renders a dict of strings with \<^verbatim>\<open>json.dumps\<close>, separators
  \<^verbatim>\<open>(",", ":")\<close> and \<^verbatim>\<open>ensure_ascii=False\<close>: no white space, and only the quote, the
  backslash and the control characters are escaped.
\<close>

definition hex_digit :: "nat \<Rightarrow> char" where
  "hex_digit n = ''0123456789abcdef'' ! (n mod 16)"

definition escape_char :: "char \<Rightarrow> string" where
  "escape_char c =
     (if c = CHR 0x22 then [CHR 0x5C, CHR 0x22]
      else if c = CHR 0x5C then [CHR 0x5C, CHR 0x5C]
      else if c = CHR 0x0A then [CHR 0x5C, CHR ''n'']
      else if c = CHR 0x0D then [CHR 0x5C, CHR ''r'']
      else if c = CHR 0x09 then [CHR 0x5C, CHR ''t'']
      else if c = CHR 0x0C then [CHR 0x5C, CHR ''f'']
      else if c = CHR 0x08 then [CHR 0x5C, CHR ''b'']
      else if (of_char c :: nat) < 32
        then [CHR 0x5C, CHR ''u'', CHR ''0'', CHR ''0'',
              hex_digit (of_char c div 16), hex_digit (of_char c)]
      else [c])"

definition json_string :: "string \<Rightarrow> string" where
  "json_string s = CHR 0x22 # concat (map escape_char s) @ [CHR 0x22]"

fun join_items :: "string list \<Rightarrow> string" where
  "join_items [] = []"
| "join_items [x] = x"
| "join_items (x # y # ys) = x @ CHR '','' # join_items (y # ys)"

definition json_dumps :: "pydict \<Rightarrow> string" where
  "json_dumps d =
     CHR ''{'' #
     join_items (map (\<lambda>(k, v). json_string k @ CHR '':'' # json_string v) d) @ [CHR ''}'']"

definition JSONResponse :: "pydict \<Rightarrow> nat \<Rightarrow> response" where
  "JSONResponse content status = \<lparr>status_code = status, body = Bytes (json_dumps content)\<rparr>"

text \<open>
  What runs when a route is chosen and the method is allowed. For the module's two routes
  the framework calls the handler and puts the dict it returns into a JSON response with
  status 200. Of the framework's own endpoints, the schema endpoint stores the schema it
  generates in the application object; the others only write a page.
\<close>

fun endpoint_app :: "endpoint \<Rightarrow> pstate \<Rightarrow> response \<times> pstate" where
  "endpoint_app Root s = (case root s of (a, s') \<Rightarrow> (JSONResponse (heap s' ! a) 200, s'))"
| "endpoint_app Healthz s = (case healthz s of (a, s') \<Rightarrow> (JSONResponse (heap s' ! a) 200, s'))"
| "endpoint_app Openapi s =
     (\<lparr>status_code = 200, body = Document Openapi\<rparr>, s\<lparr>openapi_schema := True\<rparr>)"
| "endpoint_app e s = (\<lparr>status_code = 200, body = Document e\<rparr>, s)"

section \<open>Routing\<close>

text \<open>
  The framework's router, as it treats the routes of this program, none of which has a
  path parameter. A route's path is compiled to the regular expression of the literal path
  between \<^verbatim>\<open>^\<close> and \<^verbatim>\<open>$\<close> and tried with \<^verbatim>\<open>re.match\<close>; Python's \<^verbatim>\<open>$\<close> matches at the end of the
  text and also just before a line feed that ends it.
\<close>

datatype match = NONE | PARTIAL | FULL

definition regex_match :: "string \<Rightarrow> string \<Rightarrow> bool" where
  "regex_match p s = (s = p \<or> s = p @ [CHR 0x0A])"

definition method_allowed :: "route \<Rightarrow> request \<Rightarrow> bool" where
  "method_allowed r req = (methods r = [] \<or> http_method req \<in> set (methods r))"

definition matches :: "route \<Rightarrow> request \<Rightarrow> match" where
  "matches r req =
     (if regex_match (route_path r) (path req)
      then (if method_allowed r req then FULL else PARTIAL)
      else NONE)"

text \<open>
  A route that is handed a request of a method it does not allow raises the HTTP
  exception 405, which the framework's handler turns into a JSON response.
\<close>

definition handle :: "route \<Rightarrow> request \<Rightarrow> pstate \<Rightarrow> response \<times> pstate" where
  "handle r req s =
     (if method_allowed r req then endpoint_app (endpoint r) s
      else (JSONResponse [(''detail'', ''Method Not Allowed'')] 405, s))"

text \<open>
  The loop over the route table: the first full match is taken at once; otherwise the
  first partial match (the path matches, the method does not) is remembered.
\<close>

fun route_loop :: "route list \<Rightarrow> route option \<Rightarrow> request \<Rightarrow> route option" where
  "route_loop [] partial req = partial"
| "route_loop (r # rs) partial req =
     (case matches r req of
        FULL \<Rightarrow> Some r
      | PARTIAL \<Rightarrow> route_loop rs (if partial = None then Some r else partial) req
      | NONE \<Rightarrow> route_loop rs partial req)"

text \<open>
  When no route matches and the path is not \<^verbatim>\<open>/\<close>, the router tries the path with its
  trailing slashes stripped, or with one slash added when it has none, and answers with a
  redirect (status 307, empty body) if any route matches that path, whatever the method.
  Otherwise the answer is the HTTP exception 404.
\<close>

definition redirect_path :: "string \<Rightarrow> string" where
  "redirect_path p =
     (if p \<noteq> [] \<and> last p = CHR ''/'' then rev (dropWhile (\<lambda>c. c = CHR ''/'') (rev p))
      else p @ ''/'')"

definition redirect_slashes :: "request \<Rightarrow> pstate \<Rightarrow> bool" where
  "redirect_slashes req s =
     (path req \<noteq> ''/'' \<and>
      list_ex (\<lambda>r. matches r (req\<lparr>path := redirect_path (path req)\<rparr>) \<noteq> NONE) (routes s))"

definition router :: "request \<Rightarrow> pstate \<Rightarrow> response \<times> pstate" where
  "router req s =
     (case route_loop (routes s) None req of
        Some r \<Rightarrow> handle r req s
      | None \<Rightarrow>
          if redirect_slashes req s then (\<lparr>status_code = 307, body = Bytes []\<rparr>, s)
          else (JSONResponse [(''detail'', ''Not Found'')] 404, s))"

text \<open>The server answers the requests it receives one after the other.\<close>

fun serve :: "request list \<Rightarrow> pstate \<Rightarrow> response list \<times> pstate" where
  "serve [] s = ([], s)"
| "serve (req # reqs) s =
     (case router req s of (resp, s') \<Rightarrow>
        (case serve reqs s' of (resps, s'') \<Rightarrow> (resp # resps, s'')))"

section \<open>Notions used to state the properties\<close>

text \<open>
  The integer strings: groups of digits joined by single underscores, between an optional
  sign and optional white space.
\<close>

fun join_groups :: "string list \<Rightarrow> string" where
  "join_groups [] = []"
| "join_groups [g] = g"
| "join_groups (g # g' # gs) = g @ CHR ''_'' # join_groups (g' # gs)"

definition digit_groups :: "string list \<Rightarrow> bool" where
  "digit_groups gs = (gs \<noteq> [] \<and> list_all (\<lambda>g. g \<noteq> [] \<and> list_all is_digit g) gs)"

fun stops :: "string \<Rightarrow> bool" where
  "stops [] = True"
| "stops (c # cs) = (\<not> is_digit c \<and> c \<noteq> CHR ''_'')"

text \<open>
  A state \<open>s'\<close> preserves \<open>s\<close> when the application object is the same and every object
  of the heap of \<open>s\<close> is still there, unchanged: all that may differ is objects created
  since.
\<close>

definition preserved :: "pstate \<Rightarrow> pstate \<Rightarrow> bool" where
  "preserved s s' =
     (routes s' = routes s \<and> openapi_schema s' = openapi_schema s \<and>
      take (length (heap s)) (heap s') = heap s)"

text \<open>A text between double quotes, and the paths of all routes of the application.\<close>

definition quoted :: "string \<Rightarrow> string" where
  "quoted s = CHR 0x22 # s @ [CHR 0x22]"

definition route_paths :: "string list" where
  "route_paths =
     [''/openapi.json'', ''/docs'', ''/docs/oauth2-redirect'', ''/redoc'', ''/'', ''/healthz'']"

text \<open>A GET request for a path that carries nothing else.\<close>

definition GET :: "string \<Rightarrow> request" where
  "GET p = \<lparr>http_method = ''GET'', path = p, query_string = [], headers = [], request_body = []\<rparr>"

section \<open>Lemmas on reading integers\<close>

lemma digit_not_underscore: "is_digit c \<Longrightarrow> c \<noteq> CHR ''_''"
  by (auto simp: is_digit_def)

lemma scan_digits_group:
  "g \<noteq> [] \<Longrightarrow> list_all is_digit g \<Longrightarrow>
   scan_digits pu acc (g @ t) = scan_digits False (acc @ g) t"
proof (induction g arbitrary: pu acc)
  case Nil
  then show ?case by simp
next
  case (Cons c g)
  then have c: "is_digit c" "c \<noteq> CHR ''_''" by (auto dest: digit_not_underscore)
  show ?case
  proof (cases "g = []")
    case True
    with c show ?thesis by simp
  next
    case False
    with Cons c show ?thesis by simp
  qed
qed

lemma scan_digits_stops: "stops rest \<Longrightarrow> scan_digits False acc rest = Some (acc, rest)"
  by (cases rest) auto

lemma scan_digits_join:
  "digit_groups gs \<Longrightarrow> stops rest \<Longrightarrow>
   scan_digits pu acc (join_groups gs @ rest) = Some (acc @ concat gs, rest)"
proof (induction gs arbitrary: pu acc rule: join_groups.induct)
  case 1
  then show ?case by (simp add: digit_groups_def)
next
  case (2 g)
  then have "g \<noteq> []" "list_all is_digit g" by (simp_all add: digit_groups_def)
  then show ?case using 2(2) by (simp add: scan_digits_group scan_digits_stops)
next
  case (3 g g' gs)
  then have g: "g \<noteq> []" "list_all is_digit g" and rest: "digit_groups (g' # gs)"
    by (simp_all add: digit_groups_def)
  have "scan_digits pu acc (join_groups (g # g' # gs) @ rest)
        = scan_digits False (acc @ g) (CHR ''_'' # join_groups (g' # gs) @ rest)"
    using g by (simp add: scan_digits_group)
  also have "\<dots> = scan_digits True (acc @ g) (join_groups (g' # gs) @ rest)"
    by simp
  also have "\<dots> = Some ((acc @ g) @ concat (g' # gs), rest)"
    using 3 rest by blast
  finally show ?case by simp
qed

lemma join_groups_Cons_char: "join_groups ((c # g) # gs) = c # join_groups (g # gs)"
  by (cases gs) simp_all


lemma join_groups_digit_hd:
  assumes "digit_groups gs"
  shows "\<exists>c cs. join_groups gs = c # cs \<and> is_digit c"
proof -
  from assms obtain g gs' where gs: "gs = g # gs'"
    by (cases gs) (auto simp: digit_groups_def)
  with assms obtain c g' where "g = c # g'" "is_digit c"
    by (cases g) (auto simp: digit_groups_def)
  with gs show ?thesis by (simp add: join_groups_Cons_char)
qed

lemma concat_digit_groups: "digit_groups gs \<Longrightarrow> concat gs \<noteq> []"
  by (cases gs) (auto simp: digit_groups_def)

lemma spaces_stop: "list_all is_space ws \<Longrightarrow> stops ws"
  by (cases ws) (auto simp: is_space_def is_digit_def)

lemma dropWhile_spaces:
  "list_all is_space ws \<Longrightarrow> dropWhile is_space (ws @ xs) = dropWhile is_space xs"
  by (induction ws) simp_all








lemma int_from_string_accepts:
  assumes ws1: "list_all is_space ws1" and ws2: "list_all is_space ws2"
    and sg: "sg \<in> {[], ''+'', ''-''}"
    and gs: "digit_groups gs"
    and lim: "\<not> exceeds_limit lim (length (concat gs))"
  shows "int_from_string lim (ws1 @ sg @ join_groups gs @ ws2) =
         Inr (if sg = ''-'' then - decimal (concat gs) else decimal (concat gs))"
proof -
  from join_groups_digit_hd [OF gs] obtain c cs where j: "join_groups gs = c # cs" and c: "is_digit c"
    by blast
  from c have c': "\<not> is_space c" "c \<noteq> CHR ''_''" "c \<noteq> CHR ''+''" "c \<noteq> CHR ''-''"
    by (auto simp: is_digit_def is_space_def)
  have sp: "\<not> is_space CHR ''+''" "\<not> is_space CHR ''-''" by (simp_all add: is_space_def)
  have drop: "dropWhile is_space (ws1 @ sg @ join_groups gs @ ws2) = sg @ join_groups gs @ ws2"
    using sg j c' sp by (auto simp: dropWhile_spaces [OF ws1])
  have sign: "split_sign (sg @ join_groups gs @ ws2) = (sg = ''-'', join_groups gs @ ws2)"
    using sg j c' by auto
  have scan: "scan_digits False [] (join_groups gs @ ws2) = Some (concat gs, ws2)"
    using scan_digits_join [OF gs spaces_stop [OF ws2], of False "[]"] by simp
  have tail: "dropWhile is_space ws2 = []"
    using ws2 by (simp add: list_all_iff)
  have hd: "join_groups gs @ ws2 = c # cs @ ws2" using j by simp
  show ?thesis
    unfolding int_from_string_def drop sign
    using scan lim concat_digit_groups [OF gs] tail c'(2)
    by (simp add: hd)
qed


lemma int_from_string_digits:
  assumes "ds \<noteq> []" "list_all is_digit ds"
  shows "int_from_string lim ds =
         (if exceeds_limit lim (length ds) then Inl ValueError else Inr (decimal ds))"
proof (cases "exceeds_limit lim (length ds)")
  case False
  have "digit_groups [ds]" using assms by (simp add: digit_groups_def)
  from int_from_string_accepts [of "[]" "[]" "[]" "[ds]" lim, OF _ _ _ this] False
  show ?thesis by simp
next
  case True
  from assms obtain c cs where ds: "ds = c # cs" and c: "is_digit c"
    by (cases ds) auto
  from c have c': "\<not> is_space c" "c \<noteq> CHR ''_''" "c \<noteq> CHR ''+''" "c \<noteq> CHR ''-''"
    by (auto simp: is_digit_def is_space_def)
  have "digit_groups [ds]" using assms by (simp add: digit_groups_def)
  from scan_digits_join [OF this, of "[]" False "[]"]
  have "scan_digits False [] (c # cs) = Some (c # cs, [])" by (simp add: ds)
  with True c' show ?thesis
    by (simp add: int_from_string_def ds)
qed

lemma main_unset:
  "environ ''PORT'' = None \<Longrightarrow> main lim environ = Inr (Uvicorn_run ''app:app'' ''0.0.0.0'' 8000)"
  by (simp add: main_def port_def environ_get_def)

lemma main_set:
  "environ ''PORT'' = Some s \<Longrightarrow>
   main lim environ =
     (case int_from_string lim (decimal_and_space_to_ascii s) of
        Inl e \<Rightarrow> Inl e
      | Inr p \<Rightarrow> Inr (Uvicorn_run ''app:app'' ''0.0.0.0'' p))"
  by (simp add: main_def port_def environ_get_def)

text \<open>The first step of \<^verbatim>\<open>int\<close> leaves ASCII text, so every integer string, as it is.\<close>

lemma ascii_unchanged: "list_all is_ascii s \<Longrightarrow> decimal_and_space_to_ascii s = s"
  by (simp add: decimal_and_space_to_ascii_def)

lemma digit_ascii: "is_digit c \<Longrightarrow> is_ascii c"
  by (auto simp: is_digit_def is_ascii_def)

lemma space_ascii: "is_space c \<Longrightarrow> is_ascii c"
  by (auto simp: is_space_def is_ascii_def)

lemma digits_unchanged: "list_all is_digit ds \<Longrightarrow> decimal_and_space_to_ascii ds = ds"
  by (rule ascii_unchanged) (simp add: list_all_iff digit_ascii)

lemma join_groups_ascii:
  "list_all (\<lambda>g. list_all is_digit g) gs \<Longrightarrow> list_all is_ascii (join_groups gs)"
proof (induction gs rule: join_groups.induct)
  case (3 g g' gs)
  have us: "is_ascii CHR ''_''" by (simp add: is_ascii_def)
  from 3 have "list_all is_ascii g" "list_all is_ascii (join_groups (g' # gs))"
    by (simp_all add: list_all_iff digit_ascii)
  with us show ?case by simp
qed (simp_all add: list_all_iff digit_ascii)

lemma literal_unchanged:
  assumes "list_all is_space ws1" "list_all is_space ws2" "sg \<in> {[], ''+'', ''-''}"
    and "digit_groups gs"
  shows "decimal_and_space_to_ascii (ws1 @ sg @ join_groups gs @ ws2) =
         ws1 @ sg @ join_groups gs @ ws2"
proof (rule ascii_unchanged)
  have "list_all (\<lambda>g. list_all is_digit g) gs"
    using assms(4) by (simp add: digit_groups_def list_all_iff)
  then have "list_all is_ascii (join_groups gs)" by (rule join_groups_ascii)
  moreover have "list_all is_ascii sg" using assms(3) by (auto simp: is_ascii_def)
  moreover have "list_all is_ascii ws1" "list_all is_ascii ws2"
    using assms(1,2) by (simp_all add: list_all_iff space_ascii)
  ultimately show "list_all is_ascii (ws1 @ sg @ join_groups gs @ ws2)" by simp
qed





lemma main_accented_letter:
  "main 4300 [''PORT'' \<mapsto> [CHR 0xC3, CHR 0xA9] @ ''8000''] = Inl ValueError"
  by (simp add: main_def port_def environ_get_def decimal_and_space_to_ascii_def is_ascii_def
      continuation_def low_bits_def unicode_spaces_def unicode_decimal_def unicode_zeros_def
      ascii_digit_def int_from_string_def is_space_def is_digit_def exceeds_limit_def
      decimal_def digit_value_def)

section \<open>Startup: the properties\<close>

text \<open>
  Claim C3, as the program has it. At startup the port is read from the environment
  variable \<^verbatim>\<open>PORT\<close> and parsed by \<^verbatim>\<open>int\<close>. When \<^verbatim>\<open>PORT\<close> is unset, the server is asked to
  bind port 8000. When \<^verbatim>\<open>PORT\<close> is a non-empty string of decimal digits that does not
  exceed the interpreter's limit on the digits of an integer string, the server is asked
  to bind the port the string denotes.
\<close>

theorem startup_port:
  "(environ ''PORT'' = None \<longrightarrow>
      main lim environ = Inr (Uvicorn_run ''app:app'' ''0.0.0.0'' 8000)) \<and>
   (environ ''PORT'' = Some ds \<and> ds \<noteq> [] \<and> list_all is_digit ds \<and>
    \<not> exceeds_limit lim (length ds) \<longrightarrow>
      main lim environ = Inr (Uvicorn_run ''app:app'' ''0.0.0.0'' (decimal ds)))"
  by (simp add: main_unset main_set int_from_string_digits digits_unchanged)

text \<open>With \<^verbatim>\<open>PORT\<close> unset the port is 8000, and with \<^verbatim>\<open>PORT=9000\<close> it is 9000.\<close>

theorem startup_port_witness:
  "Map.empty ''PORT'' = (None :: string option) \<and>
   main 4300 Map.empty = Inr (Uvicorn_run ''app:app'' ''0.0.0.0'' 8000) \<and>
   [''PORT'' \<mapsto> ''9000''] ''PORT'' = Some ''9000'' \<and> ''9000'' \<noteq> [] \<and>
   list_all is_digit ''9000'' \<and> \<not> exceeds_limit 4300 (length ''9000'') \<and>
   main 4300 [''PORT'' \<mapsto> ''9000''] = Inr (Uvicorn_run ''app:app'' ''0.0.0.0'' 9000)"
  using startup_port [where environ = Map.empty and lim = 4300 and ds = "''9000''"]
    startup_port [where environ = "[''PORT'' \<mapsto> ''9000'']" and lim = 4300 and ds = "''9000''"]
  by (simp add: is_digit_def exceeds_limit_def decimal_def digit_value_def)

text \<open>
  The limit is needed. Under the interpreter's default limit of 4300 digits, a \<^verbatim>\<open>PORT\<close> of
  4301 digits is a decimal integer string, and startup raises \<^verbatim>\<open>ValueError\<close> on it instead
  of starting the server.
\<close>

theorem startup_port_counterexample:
  "list_all is_digit (replicate 4301 CHR ''1'') \<and>
   main 4300 [''PORT'' \<mapsto> replicate 4301 CHR ''1''] = Inl ValueError"
proof -
  have d: "list_all is_digit (replicate 4301 CHR ''1'')"
    by (simp add: list_all_iff is_digit_def)
  have n: "replicate 4301 CHR ''1'' \<noteq> []" by simp
  have "int_from_string 4300 (replicate 4301 CHR ''1'') = Inl ValueError"
    unfolding int_from_string_digits [OF n d] by (simp add: exceeds_limit_def)
  with d show ?thesis by (simp add: main_set digits_unchanged)
qed



text \<open>
  Claim C10. The step that reads \<^verbatim>\<open>PORT\<close> is \<^verbatim>\<open>int\<close> itself, so it accepts every string
  \<^verbatim>\<open>int\<close> accepts; whatever number is read, negative or far above any port, is handed to
  the server as it is, since nothing checks the range before the server is started; and
  \<^verbatim>\<open>int\<close> accepts white space around the number, a sign and single underscores between
  digits.
\<close>

theorem port_parse_unchecked:
  assumes "environ ''PORT'' = Some s"
  shows "port lim environ = py_int lim (PyStr s) \<and>
         (\<forall>v. py_int lim (PyStr s) = Inr v \<longrightarrow>
              main lim environ = Inr (Uvicorn_run ''app:app'' ''0.0.0.0'' v)) \<and>
         (\<forall>ws1 sg gs ws2.
            s = ws1 @ sg @ join_groups gs @ ws2 \<and> list_all is_space ws1 \<and>
            list_all is_space ws2 \<and> sg \<in> {[], ''+'', ''-''} \<and> digit_groups gs \<and>
            \<not> exceeds_limit lim (length (concat gs)) \<longrightarrow>
            py_int lim (PyStr s) =
              Inr (if sg = ''-'' then - decimal (concat gs) else decimal (concat gs)))"
proof (intro conjI allI impI)
  show "port lim environ = py_int lim (PyStr s)"
    using assms by (simp add: port_def environ_get_def)
next
  fix v assume "py_int lim (PyStr s) = Inr v"
  with assms show "main lim environ = Inr (Uvicorn_run ''app:app'' ''0.0.0.0'' v)"
    by (simp add: main_set)
next
  fix ws1 sg gs ws2
  assume a: "s = ws1 @ sg @ join_groups gs @ ws2 \<and> list_all is_space ws1 \<and>
            list_all is_space ws2 \<and> sg \<in> {[], ''+'', ''-''} \<and> digit_groups gs \<and>
            \<not> exceeds_limit lim (length (concat gs))"
  then have "int_from_string lim (ws1 @ sg @ join_groups gs @ ws2) =
      Inr (if sg = ''-'' then - decimal (concat gs) else decimal (concat gs))"
    by (intro int_from_string_accepts) simp_all
  moreover from a have "decimal_and_space_to_ascii (ws1 @ sg @ join_groups gs @ ws2) =
      ws1 @ sg @ join_groups gs @ ws2"
    by (intro literal_unchanged) simp_all
  ultimately show "py_int lim (PyStr s) =
      Inr (if sg = ''-'' then - decimal (concat gs) else decimal (concat gs))"
    using a by simp
qed

text \<open>
  The strings \<^verbatim>\<open>"  -1 "\<close>, \<^verbatim>\<open>"+8000"\<close>, \<^verbatim>\<open>"8_000"\<close> and \<^verbatim>\<open>"99999"\<close> start the server with the
  ports -1, 8000, 8000 and 99999.
\<close>

theorem port_parse_unchecked_witness:
  "[''PORT'' \<mapsto> ''  -1 ''] ''PORT'' = Some ''  -1 '' \<and>
   ''  -1 '' = ''  '' @ ''-'' @ join_groups [''1''] @ '' '' \<and>
   list_all is_space ''  '' \<and> list_all is_space '' '' \<and> ''-'' \<in> {[], ''+'', ''-''} \<and>
   digit_groups [''1''] \<and> \<not> exceeds_limit 4300 (length (concat [''1''])) \<and>
   py_int 4300 (PyStr ''  -1 '') = Inr (- 1) \<and>
   main 4300 [''PORT'' \<mapsto> ''  -1 ''] = Inr (Uvicorn_run ''app:app'' ''0.0.0.0'' (- 1)) \<and>
   main 4300 [''PORT'' \<mapsto> ''+8000''] = Inr (Uvicorn_run ''app:app'' ''0.0.0.0'' 8000) \<and>
   main 4300 [''PORT'' \<mapsto> ''8_000''] = Inr (Uvicorn_run ''app:app'' ''0.0.0.0'' 8000) \<and>
   main 4300 [''PORT'' \<mapsto> ''99999''] = Inr (Uvicorn_run ''app:app'' ''0.0.0.0'' 99999)"
proof -
  have env: "[''PORT'' \<mapsto> t] ''PORT'' = Some t" for t :: string by simp
  have form: "''  -1 '' = ''  '' @ ''-'' @ join_groups [''1''] @ '' '' \<and>
      list_all is_space ''  '' \<and> list_all is_space '' '' \<and> ''-'' \<in> {[], ''+'', ''-''} \<and>
      digit_groups [''1''] \<and> \<not> exceeds_limit 4300 (length (concat [''1'']))"
    by (simp add: is_space_def is_digit_def digit_groups_def exceeds_limit_def)
  have t: "(\<forall>v. py_int 4300 (PyStr t) = Inr v \<longrightarrow>
              main 4300 [''PORT'' \<mapsto> t] = Inr (Uvicorn_run ''app:app'' ''0.0.0.0'' v)) \<and>
         (\<forall>ws1 sg gs ws2.
            t = ws1 @ sg @ join_groups gs @ ws2 \<and> list_all is_space ws1 \<and>
            list_all is_space ws2 \<and> sg \<in> {[], ''+'', ''-''} \<and> digit_groups gs \<and>
            \<not> exceeds_limit 4300 (length (concat gs)) \<longrightarrow>
            py_int 4300 (PyStr t) =
              Inr (if sg = ''-'' then - decimal (concat gs) else decimal (concat gs)))"
    for t
    by (rule port_parse_unchecked [where environ = "[''PORT'' \<mapsto> t]" and s = t and lim = 4300,
          OF env, THEN conjunct2])
  note started = t [THEN conjunct1, rule_format]
  note read = t [THEN conjunct2, rule_format]
  have "py_int 4300 (PyStr ''  -1 '') = Inr (- decimal (concat [''1'']))"
    using read [of "''  -1 ''" "''  ''" "''-''" "[''1'']" "'' ''", OF form] by simp
  then have p: "py_int 4300 (PyStr ''  -1 '') = Inr (- 1)"
    by (simp add: decimal_def digit_value_def)
  have q: "py_int 4300 (PyStr ''+8000'') = Inr 8000" "py_int 4300 (PyStr ''8_000'') = Inr 8000"
    "py_int 4300 (PyStr ''99999'') = Inr 99999"
    by (simp_all add: decimal_and_space_to_ascii_def is_ascii_def int_from_string_def
        is_space_def is_digit_def exceeds_limit_def decimal_def digit_value_def)
  from env [of "''  -1 ''"] form p started [OF p] started [OF q(1)] started [OF q(2)]
    started [OF q(3)]
  show ?thesis by (intro conjI) (simp_all only: simp_thms)
qed

section \<open>Lemmas on routing\<close>

lemma routes_app:
  "routes app =
     [\<lparr>route_path = ''/openapi.json'', methods = [''GET'', ''HEAD''], endpoint = Openapi\<rparr>,
      \<lparr>route_path = ''/docs'', methods = [''GET'', ''HEAD''], endpoint = Swagger_ui_html\<rparr>,
      \<lparr>route_path = ''/docs/oauth2-redirect'', methods = [''GET'', ''HEAD''],
         endpoint = Swagger_ui_redirect\<rparr>,
      \<lparr>route_path = ''/redoc'', methods = [''GET'', ''HEAD''], endpoint = Redoc_html\<rparr>,
      \<lparr>route_path = ''/'', methods = [''GET''], endpoint = Root\<rparr>,
      \<lparr>route_path = ''/healthz'', methods = [''GET''], endpoint = Healthz\<rparr>]"
  by (simp add: app_def app_get_def FastAPI_def)

lemma route_paths_app: "map route_path (routes app) = route_paths"
  by (simp add: routes_app route_paths_def)

lemma json_root:
  "json_dumps [(''message'', ''Hello from FastAPI on AKS!'')] =
   ''{'' @ quoted ''message'' @ '':'' @ quoted ''Hello from FastAPI on AKS!'' @ ''}''"
  by (simp add: json_dumps_def json_string_def escape_char_def quoted_def)

lemma json_healthz:
  "json_dumps [(''status'', ''ok'')] = ''{'' @ quoted ''status'' @ '':'' @ quoted ''ok'' @ ''}''"
  by (simp add: json_dumps_def json_string_def escape_char_def quoted_def)

lemma route_loop_root:
  assumes "routes s = routes app" "path req = ''/''"
  shows "route_loop (routes s) None req =
         Some \<lparr>route_path = ''/'', methods = [''GET''], endpoint = Root\<rparr>"
  using assms by (simp add: routes_app matches_def regex_match_def method_allowed_def)

lemma route_loop_healthz:
  assumes "routes s = routes app" "path req = ''/healthz''"
  shows "route_loop (routes s) None req =
         Some \<lparr>route_path = ''/healthz'', methods = [''GET''], endpoint = Healthz\<rparr>"
  using assms by (simp add: routes_app matches_def regex_match_def method_allowed_def)

lemma router_root:
  assumes "routes s = routes app" "http_method req = ''GET''" "path req = ''/''"
  shows "router req s =
    (JSONResponse [(''message'', ''Hello from FastAPI on AKS!'')] 200,
     s\<lparr>heap := heap s @ [[(''message'', ''Hello from FastAPI on AKS!'')]]\<rparr>)"
  using assms(2) unfolding router_def route_loop_root [OF assms(1,3)]
  by (simp add: handle_def method_allowed_def root_def new_dict_def)

lemma router_healthz:
  assumes "routes s = routes app" "http_method req = ''GET''" "path req = ''/healthz''"
  shows "router req s =
    (JSONResponse [(''status'', ''ok'')] 200, s\<lparr>heap := heap s @ [[(''status'', ''ok'')]]\<rparr>)"
  using assms(2) unfolding router_def route_loop_healthz [OF assms(1,3)]
  by (simp add: handle_def method_allowed_def healthz_def new_dict_def)

lemma router_not_get:
  assumes "routes s = routes app" "http_method req \<noteq> ''GET''"
    and "path req = ''/'' \<or> path req = ''/healthz''"
  shows "router req s = (JSONResponse [(''detail'', ''Method Not Allowed'')] 405, s)"
  using assms(3)
proof
  assume p: "path req = ''/''"
  show ?thesis using assms(2) unfolding router_def route_loop_root [OF assms(1) p]
    by (simp add: handle_def method_allowed_def)
next
  assume p: "path req = ''/healthz''"
  show ?thesis using assms(2) unfolding router_def route_loop_healthz [OF assms(1) p]
    by (simp add: handle_def method_allowed_def)
qed

lemma route_loop_none:
  "list_all (\<lambda>r. \<not> regex_match (route_path r) (path req)) rs \<Longrightarrow>
   route_loop rs None req = None"
  by (induction rs) (simp_all add: matches_def)

lemma router_not_found:
  assumes s: "routes s = routes app"
    and direct: "\<forall>q \<in> set route_paths. \<not> regex_match q (path req)"
    and slash: "\<forall>q \<in> set route_paths. \<not> regex_match q (redirect_path (path req))"
  shows "route_loop (routes s) None req = None"
    and "router req s = (JSONResponse [(''detail'', ''Not Found'')] 404, s)"
proof -
  have "list_all (\<lambda>r. \<not> regex_match (route_path r) (path req)) (routes s)"
    using direct unfolding s route_paths_app [symmetric] by (simp add: list_all_iff)
  then show none: "route_loop (routes s) None req = None" by (rule route_loop_none)
  have "\<not> redirect_slashes req s"
    using slash unfolding route_paths_app [symmetric]
    by (simp add: redirect_slashes_def list_ex_iff matches_def s)
  with none show "router req s = (JSONResponse [(''detail'', ''Not Found'')] 404, s)"
    by (simp add: router_def)
qed

lemma serve_replicate:
  assumes step: "\<And>s. routes s = routes app \<Longrightarrow> router req s = (resp, s\<lparr>heap := heap s @ [d]\<rparr>)"
  shows "routes s = routes app \<Longrightarrow>
         serve (replicate n req) s = (replicate n resp, s\<lparr>heap := heap s @ replicate n d\<rparr>)"
proof (induction n arbitrary: s)
  case 0
  then show ?case by simp
next
  case (Suc n)
  let ?s' = "s\<lparr>heap := heap s @ [d]\<rparr>"
  have "routes ?s' = routes app" using Suc.prems by simp
  from Suc.IH [OF this] step [OF Suc.prems] show ?case
    by (simp add: replicate_app_Cons_same)
qed

lemma endpoint_app_routes: "routes (snd (endpoint_app e s)) = routes s"
  by (cases e) (simp_all add: root_def healthz_def new_dict_def)

lemma router_routes: "routes (snd (router req s)) = routes s"
  by (simp add: router_def handle_def endpoint_app_routes split: option.splits)

lemma serve_routes: "routes (snd (serve reqs s)) = routes s"
proof (induction reqs arbitrary: s)
  case Nil
  then show ?case by simp
next
  case (Cons req reqs)
  obtain resp s' where r: "router req s = (resp, s')" by (cases "router req s")
  obtain resps s'' where rs: "serve reqs s' = (resps, s'')" by (cases "serve reqs s'")
  from router_routes [of req s] r have "routes s' = routes s" by simp
  moreover from Cons.IH [of s'] rs have "routes s'' = routes s'" by simp
  ultimately show ?case using r rs by simp
qed

text \<open>
  Serving requests never changes the route table, so every state the server reaches from
  \<open>app\<close> has the routes of \<open>app\<close>: the properties below are stated for all such states.
\<close>

lemma reachable_routes: "routes (snd (serve reqs app)) = routes app"
  by (rule serve_routes)

lemma preserved_heap_append: "preserved s (s\<lparr>heap := heap s @ xs\<rparr>)"
  by (simp add: preserved_def)

section \<open>The handlers and the routes: the properties\<close>

text \<open>
  Claim C1. Every GET request for the path \<^verbatim>\<open>/\<close>, whatever else it carries and whatever
  was served before, is answered with status 200 and a body that is exactly the JSON
  object with the one key \<^verbatim>\<open>message\<close> and the value \<^verbatim>\<open>Hello from FastAPI on AKS!\<close>; the
  bytes sent are that object in JSON's compact form.
\<close>

theorem get_root_response:
  assumes "routes s = routes app" and "http_method req = ''GET''" and "path req = ''/''"
  shows "status_code (fst (router req s)) = 200 \<and>
         body (fst (router req s)) =
           Bytes (json_dumps [(''message'', ''Hello from FastAPI on AKS!'')]) \<and>
         body (fst (router req s)) =
           Bytes (''{'' @ quoted ''message'' @ '':'' @ quoted ''Hello from FastAPI on AKS!'' @ ''}'')"
  unfolding router_root [OF assms] json_root [symmetric]
  by (simp add: JSONResponse_def)

theorem get_root_response_witness:
  "routes app = routes app \<and>
   http_method \<lparr>http_method = ''GET'', path = ''/'', query_string = ''x=1'',
      headers = [(''accept'', ''text/html'')], request_body = ''ignored''\<rparr> = ''GET'' \<and>
   path \<lparr>http_method = ''GET'', path = ''/'', query_string = ''x=1'',
      headers = [(''accept'', ''text/html'')], request_body = ''ignored''\<rparr> = ''/'' \<and>
   fst (router \<lparr>http_method = ''GET'', path = ''/'', query_string = ''x=1'',
      headers = [(''accept'', ''text/html'')], request_body = ''ignored''\<rparr> app) =
     \<lparr>status_code = 200,
      body = Bytes (''{'' @ quoted ''message'' @ '':'' @ quoted ''Hello from FastAPI on AKS!'' @ ''}'')\<rparr>"
  using get_root_response [of app "\<lparr>http_method = ''GET'', path = ''/'', query_string = ''x=1'',
      headers = [(''accept'', ''text/html'')], request_body = ''ignored''\<rparr>"]
  by (cases "fst (router \<lparr>http_method = ''GET'', path = ''/'', query_string = ''x=1'',
      headers = [(''accept'', ''text/html'')], request_body = ''ignored''\<rparr> app)") simp

text \<open>
  Claim C2. Every GET request for the path \<^verbatim>\<open>/healthz\<close> is answered with status 200 and a
  body that is exactly the JSON object with the one key \<^verbatim>\<open>status\<close> and the value \<^verbatim>\<open>ok\<close>.
\<close>

theorem get_healthz_response:
  assumes "routes s = routes app" and "http_method req = ''GET''" and "path req = ''/healthz''"
  shows "status_code (fst (router req s)) = 200 \<and>
         body (fst (router req s)) = Bytes (json_dumps [(''status'', ''ok'')]) \<and>
         body (fst (router req s)) =
           Bytes (''{'' @ quoted ''status'' @ '':'' @ quoted ''ok'' @ ''}'')"
  unfolding router_healthz [OF assms] json_healthz [symmetric]
  by (simp add: JSONResponse_def)

theorem get_healthz_response_witness:
  "routes app = routes app \<and> http_method (GET ''/healthz'') = ''GET'' \<and>
   path (GET ''/healthz'') = ''/healthz'' \<and>
   fst (router (GET ''/healthz'') app) =
     \<lparr>status_code = 200,
      body = Bytes (''{'' @ quoted ''status'' @ '':'' @ quoted ''ok'' @ ''}'')\<rparr>"
  using get_healthz_response [of app "GET ''/healthz''"]
  by (cases "fst (router (GET ''/healthz'') app)") (simp add: GET_def)

text \<open>
  Claim C5, as the program has it. A request, of any method, whose path matches none of
  the application's routes, neither the two the module declares nor the four the
  framework registers for its schema and documentation pages, and still matches none
  after the router's change of the trailing slash, is matched by no route and is answered
  with status 404; the state is left as it was.
\<close>

theorem unmatched_path_not_found:
  assumes "routes s = routes app"
    and "\<forall>q \<in> set route_paths. \<not> regex_match q (path req)"
    and "\<forall>q \<in> set route_paths. \<not> regex_match q (redirect_path (path req))"
  shows "route_loop (routes s) None req = None \<and>
         status_code (fst (router req s)) = 404 \<and> snd (router req s) = s"
  using router_not_found [OF assms] by (simp add: JSONResponse_def)

theorem unmatched_path_not_found_witness:
  "routes app = routes app \<and>
   list_all (\<lambda>q. \<not> regex_match q (path (GET ''/unknown''))) route_paths \<and>
   list_all (\<lambda>q. \<not> regex_match q (redirect_path (path (GET ''/unknown'')))) route_paths \<and>
   route_loop (routes app) None (GET ''/unknown'') = None \<and>
   status_code (fst (router (GET ''/unknown'') app)) = 404 \<and>
   snd (router (GET ''/unknown'') app) = app"
proof -
  have 1: "\<forall>q \<in> set route_paths. \<not> regex_match q (path (GET ''/unknown''))"
    by (simp add: route_paths_def regex_match_def GET_def)
  have 2: "\<forall>q \<in> set route_paths. \<not> regex_match q (redirect_path (path (GET ''/unknown'')))"
    by (simp add: route_paths_def regex_match_def GET_def redirect_path_def)
  from unmatched_path_not_found [OF refl 1 2] 1 2 show ?thesis
    by (simp add: list_all_iff)
qed

text \<open>
  Both conditions are needed: \<^verbatim>\<open>/docs\<close> and \<^verbatim>\<open>/healthz/\<close> are neither \<^verbatim>\<open>/\<close> nor \<^verbatim>\<open>/healthz\<close>,
  and a GET request for the first is answered with status 200 by the documentation page,
  one for the second with the redirect 307 to \<^verbatim>\<open>/healthz\<close>.
\<close>

theorem unmatched_path_counterexample:
  "path (GET ''/docs'') \<noteq> ''/'' \<and> path (GET ''/docs'') \<noteq> ''/healthz'' \<and>
   status_code (fst (router (GET ''/docs'') app)) = 200 \<and>
   path (GET ''/healthz/'') \<noteq> ''/'' \<and> path (GET ''/healthz/'') \<noteq> ''/healthz'' \<and>
   status_code (fst (router (GET ''/healthz/'') app)) = 307"
  by (simp add: GET_def router_def routes_app matches_def regex_match_def method_allowed_def
      handle_def redirect_slashes_def redirect_path_def)

text \<open>
  Claim C6. Every request for the path \<^verbatim>\<open>/\<close> or \<^verbatim>\<open>/healthz\<close> whose method is not GET is
  answered with status 405; no handler runs and the state is left as it was.
\<close>

theorem wrong_method_not_allowed:
  assumes "routes s = routes app" and "path req = ''/'' \<or> path req = ''/healthz''"
    and "http_method req \<noteq> ''GET''"
  shows "status_code (fst (router req s)) = 405 \<and> snd (router req s) = s"
  unfolding router_not_get [OF assms(1,3,2)] by (simp add: JSONResponse_def)

theorem wrong_method_not_allowed_witness:
  "routes app = routes app \<and>
   (path ((GET ''/'')\<lparr>http_method := ''POST''\<rparr>) = ''/'' \<or>
    path ((GET ''/'')\<lparr>http_method := ''POST''\<rparr>) = ''/healthz'') \<and>
   http_method ((GET ''/'')\<lparr>http_method := ''POST''\<rparr>) \<noteq> ''GET'' \<and>
   status_code (fst (router ((GET ''/'')\<lparr>http_method := ''POST''\<rparr>) app)) = 405 \<and>
   snd (router ((GET ''/'')\<lparr>http_method := ''POST''\<rparr>) app) = app"
  using wrong_method_not_allowed [of app "(GET ''/'')\<lparr>http_method := ''POST''\<rparr>"]
  by (simp add: GET_def)

text \<open>
  Claim C7. Repeating a GET request for \<^verbatim>\<open>/\<close> or for \<^verbatim>\<open>/healthz\<close> any number of times
  gives the same response every time, so the same bytes in every body, and the state after
  the calls preserves the state before them: the application object is the same and no
  object that existed before has changed.
\<close>

theorem repeated_requests_identical:
  assumes "routes s = routes app" and "http_method req = ''GET''"
    and "path req = ''/'' \<or> path req = ''/healthz''"
  shows "fst (serve (replicate n req) s) = replicate n (fst (router req s)) \<and>
         map body (fst (serve (replicate n req) s)) = replicate n (body (fst (router req s))) \<and>
         preserved s (snd (serve (replicate n req) s))"
proof -
  have run: "fst (serve (replicate n req) s) = replicate n (fst (router req s)) \<and>
             preserved s (snd (serve (replicate n req) s))"
    if step: "\<And>s. routes s = routes app \<Longrightarrow> router req s = (resp, s\<lparr>heap := heap s @ [d]\<rparr>)"
    for resp d
    using serve_replicate [of req resp d s n, OF step assms(1)] step [OF assms(1)]
    by (simp add: preserved_heap_append)
  from assms(3) have "fst (serve (replicate n req) s) = replicate n (fst (router req s)) \<and>
             preserved s (snd (serve (replicate n req) s))"
  proof
    assume "path req = ''/''"
    from run [OF router_root [OF _ assms(2) this]] show ?thesis .
  next
    assume "path req = ''/healthz''"
    from run [OF router_healthz [OF _ assms(2) this]] show ?thesis .
  qed
  then show ?thesis by simp
qed

theorem repeated_requests_identical_witness:
  "routes app = routes app \<and> http_method (GET ''/healthz'') = ''GET'' \<and>
   (path (GET ''/healthz'') = ''/'' \<or> path (GET ''/healthz'') = ''/healthz'') \<and>
   fst (serve (replicate 3 (GET ''/healthz'')) app) =
     replicate 3 (fst (router (GET ''/healthz'') app)) \<and>
   map body (fst (serve (replicate 3 (GET ''/healthz'')) app)) =
     replicate 3 (body (fst (router (GET ''/healthz'') app))) \<and>
   preserved app (snd (serve (replicate 3 (GET ''/healthz'')) app))"
  using repeated_requests_identical [of app "GET ''/healthz''" 3]
  by (simp add: GET_def)

text \<open>
  Claim C8. The response to a GET request for \<^verbatim>\<open>/\<close> or for \<^verbatim>\<open>/healthz\<close> depends on nothing
  the request carries: two such requests for the same path, differing in query string,
  headers and body in any way, get equal responses, also when they are served in different
  states of the program, and served in the same state they lead to the same state.
\<close>

theorem request_data_noninterference:
  assumes "routes s1 = routes app" and "routes s2 = routes app"
    and "http_method r1 = ''GET''" and "http_method r2 = ''GET''"
    and "path r1 = path r2" and "path r1 = ''/'' \<or> path r1 = ''/healthz''"
  shows "fst (router r1 s1) = fst (router r2 s2) \<and> router r1 s1 = router r2 s1"
  using assms(6)
proof
  assume p: "path r1 = ''/''"
  with assms(5) have p2: "path r2 = ''/''" by simp
  show ?thesis
    by (simp add: router_root [OF assms(1,3) p] router_root [OF assms(2,4) p2]
        router_root [OF assms(1,4) p2])
next
  assume p: "path r1 = ''/healthz''"
  with assms(5) have p2: "path r2 = ''/healthz''" by simp
  show ?thesis
    by (simp add: router_healthz [OF assms(1,3) p] router_healthz [OF assms(2,4) p2]
        router_healthz [OF assms(1,4) p2])
qed

theorem request_data_noninterference_witness:
  "routes app = routes app \<and> routes (snd (router (GET ''/openapi.json'') app)) = routes app \<and>
   http_method (GET ''/'') = ''GET'' \<and>
   http_method \<lparr>http_method = ''GET'', path = ''/'', query_string = ''debug=1'',
      headers = [(''cookie'', ''secret'')], request_body = ''payload''\<rparr> = ''GET'' \<and>
   path (GET ''/'') = path \<lparr>http_method = ''GET'', path = ''/'', query_string = ''debug=1'',
      headers = [(''cookie'', ''secret'')], request_body = ''payload''\<rparr> \<and>
   (path (GET ''/'') = ''/'' \<or> path (GET ''/'') = ''/healthz'') \<and>
   fst (router (GET ''/'') app) =
     fst (router \<lparr>http_method = ''GET'', path = ''/'', query_string = ''debug=1'',
        headers = [(''cookie'', ''secret'')], request_body = ''payload''\<rparr>
        (snd (router (GET ''/openapi.json'') app)))"
proof -
  let ?r2 = "\<lparr>http_method = ''GET'', path = ''/'', query_string = ''debug=1'',
      headers = [(''cookie'', ''secret'')], request_body = ''payload''\<rparr>"
  have s2: "routes (snd (router (GET ''/openapi.json'') app)) = routes app"
    by (simp add: GET_def router_def routes_app matches_def regex_match_def method_allowed_def
        handle_def)
  have m1: "http_method (GET ''/'') = ''GET''" and m2: "http_method ?r2 = ''GET''"
    and p: "path (GET ''/'') = path ?r2"
    and p1: "path (GET ''/'') = ''/'' \<or> path (GET ''/'') = ''/healthz''"
    by (simp_all add: GET_def)
  from request_data_noninterference [OF refl s2 m1 m2 p p1]
  have "fst (router (GET ''/'') app) = fst (router ?r2 (snd (router (GET ''/openapi.json'') app)))"
    by (rule conjunct1)
  with s2 m1 m2 p p1 show ?thesis by blast
qed

text \<open>
  Claim C9. Each call of \<^verbatim>\<open>root\<close> or \<^verbatim>\<open>healthz\<close> builds its payload anew: the object it
  returns did not exist before the call, holds the fixed payload whatever the state is,
  and is not the object the next call returns. The call has no other effect: the state
  after it preserves the state before it, that is, the application object is the same and
  every object that existed is unchanged.
\<close>

theorem handlers_fresh_no_effect:
  "length (heap s) \<le> fst (root s) \<and> fst (root s) < length (heap (snd (root s))) \<and>
   heap (snd (root s)) ! fst (root s) = [(''message'', ''Hello from FastAPI on AKS!'')] \<and>
   fst (root (snd (root s))) \<noteq> fst (root s) \<and>
   preserved s (snd (root s)) \<and>
   length (heap s) \<le> fst (healthz s) \<and> fst (healthz s) < length (heap (snd (healthz s))) \<and>
   heap (snd (healthz s)) ! fst (healthz s) = [(''status'', ''ok'')] \<and>
   fst (healthz (snd (healthz s))) \<noteq> fst (healthz s) \<and>
   preserved s (snd (healthz s))"
  by (simp add: root_def healthz_def new_dict_def preserved_def)

end
